theory Spec2Isabelle
  imports Complex_Main "HOL-Library.Multiset"
begin

section \<open>Incident tracker: the request handlers of incident\_tracker.py\<close>

text \<open>
  The handlers read a decoded JSON body, validate it, perform one operation on the
  table of incidents and return a body with a status code. The table is passed in and
  returned explicitly; a Python exception that leaves a handler is a value of the
  outcome type. Text is a list of 8-bit code points.
\<close>

subsection \<open>Decoded JSON and the Python operations the handlers apply to it\<close>

text \<open>
  What \<open>request.get_json()\<close> returns; \<open>JNull\<close> is \<open>None\<close>. An object is the
  association list of its dict: the first binding of a key is the dict's value. A float
  enters the handlers through its truth value only.
\<close>

datatype json =
    JNull
  | JBool bool
  | JInt int
  | JFloat rat
  | JString string
  | JArray "json list"
  | JObject "(string \<times> json) list"

datatype exn = AttributeError | TypeError | KeyError | StorageError

text \<open>Python truth value: \<open>None\<close>, \<open>False\<close>, zero and empty containers are false.\<close>

fun truthy :: "json \<Rightarrow> bool" where
  "truthy JNull = False"
| "truthy (JBool b) = b"
| "truthy (JInt i) = (i \<noteq> 0)"
| "truthy (JFloat r) = (r \<noteq> 0)"
| "truthy (JString s) = (s \<noteq> [])"
| "truthy (JArray xs) = (xs \<noteq> [])"
| "truthy (JObject kvs) = (kvs \<noteq> [])"

text \<open>\<open>data.get(k, default)\<close>: only a dict has the method.\<close>

fun dict_get :: "json \<Rightarrow> string \<Rightarrow> json \<Rightarrow> exn + json" where
  "dict_get (JObject kvs) k dflt = Inr (case map_of kvs k of None \<Rightarrow> dflt | Some v \<Rightarrow> v)"
| "dict_get _ k dflt = Inl AttributeError"

text \<open>
  \<open>str.isspace\<close> on one code point below 256: tab to carriage return, the four
  separators 28 to 31, space, next-line and no-break space.
\<close>

definition isspace :: "char \<Rightarrow> bool" where
  "isspace c = ((of_char c :: nat) \<in> {9, 10, 11, 12, 13, 28, 29, 30, 31, 32, 133, 160})"

definition strip :: "string \<Rightarrow> string" where
  "strip s = rev (dropWhile isspace (rev (dropWhile isspace s)))"

text \<open>\<open>v.strip()\<close>: only a str has the method.\<close>

fun strip_method :: "json \<Rightarrow> exn + string" where
  "strip_method (JString s) = Inr (strip s)"
| "strip_method _ = Inl AttributeError"

fun starts_with :: "string \<Rightarrow> string \<Rightarrow> bool" where
  "starts_with [] s = True"
| "starts_with (c # cs) [] = False"
| "starts_with (c # cs) (d # ds) = (c = d \<and> starts_with cs ds)"

fun is_substring :: "string \<Rightarrow> string \<Rightarrow> bool" where
  "is_substring p [] = (p = [])"
| "is_substring p (c # cs) = (starts_with p (c # cs) \<or> is_substring p cs)"

text \<open>
  \<open>k in data\<close> for a string \<open>k\<close>: key membership in a dict, element membership in a
  list, substring test in a str; any other operand is not iterable.
\<close>

fun py_contains :: "string \<Rightarrow> json \<Rightarrow> exn + bool" where
  "py_contains k (JObject kvs) = Inr (k \<in> set (map fst kvs))"
| "py_contains k (JArray xs) = Inr (JString k \<in> set xs)"
| "py_contains k (JString s) = Inr (is_substring k s)"
| "py_contains k _ = Inl TypeError"

text \<open>\<open>data[k]\<close> for a string \<open>k\<close>.\<close>

fun py_subscript :: "json \<Rightarrow> string \<Rightarrow> exn + json" where
  "py_subscript (JObject kvs) k =
     (case map_of kvs k of None \<Rightarrow> Inl KeyError | Some v \<Rightarrow> Inr v)"
| "py_subscript _ k = Inl TypeError"

subsection \<open>The enumerations and the model class\<close>

datatype Severity = LOW | MEDIUM | HIGH

fun Severity_value :: "Severity \<Rightarrow> string" where
  "Severity_value LOW = ''Low''"
| "Severity_value MEDIUM = ''Medium''"
| "Severity_value HIGH = ''High''"

datatype Status = OPEN | IN_PROGRESS | RESOLVED

fun Status_value :: "Status \<Rightarrow> string" where
  "Status_value OPEN = ''Open''"
| "Status_value IN_PROGRESS = ''In Progress''"
| "Status_value RESOLVED = ''Resolved''"

definition valid_severity :: "string list" where
  "valid_severity = map Severity_value [LOW, MEDIUM, HIGH]"

definition valid_statuses :: "string list" where
  "valid_statuses = map Status_value [OPEN, IN_PROGRESS, RESOLVED]"

text \<open>
  A row of the table \<open>incidents\<close>. The text columns hold strings; the timestamp is a
  point on the UTC time line, in microseconds.
\<close>

record incident =
  id' :: int
  title :: string
  description :: string
  reported_by :: string
  severity :: string
  status :: string
  timestamp :: int

type_synonym store = "incident list"

type_synonym response = "json \<times> nat"

datatype outcome = Returned response | Raised exn

text \<open>
  \<open>Incident.to_dict\<close>. The formatting of the timestamp, \<open>datetime.isoformat\<close>, is
  library code and a parameter of the model.
\<close>

definition to_dict :: "(int \<Rightarrow> string) \<Rightarrow> incident \<Rightarrow> json" where
  "to_dict isoformat self = JObject
     [(''id'', JInt (id' self)),
      (''title'', JString (title self)),
      (''description'', JString (description self)),
      (''reported_by'', JString (reported_by self)),
      (''severity'', JString (severity self)),
      (''timestamp'', JString (isoformat (timestamp self))),
      (''status'', JString (status self))]"

subsection \<open>The storage engine, as the handlers use it\<close>

text \<open>
  The table is the list of its rows in insertion order. The engine assigns the integer
  primary key of a new row: 1 in an empty table, otherwise one more than the largest
  key in the table.
\<close>

definition fresh_id :: "store \<Rightarrow> int" where
  "fresh_id db = (case map id' db of [] \<Rightarrow> 1 | i # ids \<Rightarrow> fold max ids i + 1)"

text \<open>\<open>db.session.get(Incident, incident_id)\<close>: the row with that primary key, if any.\<close>

definition session_get :: "store \<Rightarrow> int \<Rightarrow> incident option" where
  "session_get db incident_id = find (\<lambda>r. id' r = incident_id) db"

text \<open>
  A value bound to a text column. After validation every such value is a string; the
  engine's refusal of anything else is one error value.
\<close>

fun column_text :: "exn + json \<Rightarrow> exn + string" where
  "column_text (Inl e) = Inl e"
| "column_text (Inr (JString s)) = Inr s"
| "column_text (Inr _) = Inl StorageError"

subsection \<open>validate\_fields\<close>

text \<open>\<open>not data.get(k) or not data.get(k).strip()\<close>, evaluated left to right.\<close>

definition field_missing :: "json \<Rightarrow> string \<Rightarrow> exn + bool" where
  "field_missing data k =
     (case dict_get data k JNull of
        Inl e \<Rightarrow> Inl e
      | Inr v \<Rightarrow>
          if \<not> truthy v then Inr True
          else (case dict_get data k JNull of
                  Inl e \<Rightarrow> Inl e
                | Inr w \<Rightarrow>
                    (case strip_method w of
                       Inl e \<Rightarrow> Inl e
                     | Inr s \<Rightarrow> Inr (\<not> truthy (JString s)))))"

text \<open>The list comprehension over the required keys: the first exception ends it.\<close>

fun collect_missing :: "json \<Rightarrow> string list \<Rightarrow> exn + string list" where
  "collect_missing data [] = Inr []"
| "collect_missing data (k # ks) =
     (case field_missing data k of
        Inl e \<Rightarrow> Inl e
      | Inr b \<Rightarrow>
          (case collect_missing data ks of
             Inl e \<Rightarrow> Inl e
           | Inr ms \<Rightarrow> Inr (if b then k # ms else ms)))"

text \<open>\<open>k in data and data[k] not in allowed\<close>, for a list \<open>allowed\<close> of strings.\<close>

definition present_not_among :: "string \<Rightarrow> string list \<Rightarrow> json \<Rightarrow> exn + bool" where
  "present_not_among k allowed data =
     (case py_contains k data of
        Inl e \<Rightarrow> Inl e
      | Inr False \<Rightarrow> Inr False
      | Inr True \<Rightarrow>
          (case py_subscript data k of
             Inl e \<Rightarrow> Inl e
           | Inr v \<Rightarrow> Inr (v \<notin> set (map JString allowed))))"

definition no_data :: response where
  "no_data = (JObject [(''error'', JString ''No JSON data provided'')], 400)"

definition missing_fields :: "string list \<Rightarrow> response" where
  "missing_fields missing =
     (JObject [(''error'', JString ''Missing required field(s)''),
               (''missing'', JArray (map JString missing))], 400)"

definition invalid_severity :: response where
  "invalid_severity =
     (JObject [(''error'', JString ''Invalid severity''),
               (''message'', JString ''Severity must be ['Low', 'Medium', 'High']'')], 400)"

definition validate_fields :: "json \<Rightarrow> exn + response option" where
  "validate_fields data =
     (if \<not> truthy data then Inr (Some no_data)
      else (case collect_missing data [''title'', ''description'', ''reported_by''] of
              Inl e \<Rightarrow> Inl e
            | Inr missing \<Rightarrow>
                if missing \<noteq> [] then Inr (Some (missing_fields missing))
                else (case present_not_among ''severity'' valid_severity data of
                        Inl e \<Rightarrow> Inl e
                      | Inr True \<Rightarrow> Inr (Some invalid_severity)
                      | Inr False \<Rightarrow> Inr None)))"

subsection \<open>POST /incidents\<close>

text \<open>
  The constructor call of \<open>create_incident\<close>: the three subscripts and the \<open>get\<close>
  with its default, left to right; status and timestamp as \<open>Incident.__init__\<close>
  sets them.
\<close>

definition new_incident :: "int \<Rightarrow> int \<Rightarrow> json \<Rightarrow> exn + incident" where
  "new_incident now new_id data =
     (case column_text (py_subscript data ''title'') of
        Inl e \<Rightarrow> Inl e
      | Inr t \<Rightarrow>
     (case column_text (py_subscript data ''description'') of
        Inl e \<Rightarrow> Inl e
      | Inr d \<Rightarrow>
     (case column_text (py_subscript data ''reported_by'') of
        Inl e \<Rightarrow> Inl e
      | Inr r \<Rightarrow>
     (case column_text (dict_get data ''severity'' (JString (Severity_value MEDIUM))) of
        Inl e \<Rightarrow> Inl e
      | Inr sv \<Rightarrow>
          Inr \<lparr>id' = new_id, title = t, description = d, reported_by = r,
               severity = sv, status = Status_value OPEN, timestamp = now\<rparr>))))"

definition create_incident ::
    "(int \<Rightarrow> string) \<Rightarrow> int \<Rightarrow> store \<Rightarrow> json \<Rightarrow> store \<times> outcome" where
  "create_incident isoformat now db data =
     (case validate_fields data of
        Inl e \<Rightarrow> (db, Raised e)
      | Inr (Some err) \<Rightarrow> (db, Returned err)
      | Inr None \<Rightarrow>
          (case new_incident now (fresh_id db) data of
             Inl e \<Rightarrow> (db, Raised e)
           | Inr incident \<Rightarrow>
               (db @ [incident], Returned (to_dict isoformat incident, 201))))"

subsection \<open>GET /incidents\<close>

text \<open>
  One query parameter (\<open>None\<close> when it is not in the query string) and the filter it
  adds: \<open>if status_filter: incidents = incidents.filter(column == status_filter)\<close>.
\<close>

fun apply_filter :: "(incident \<Rightarrow> string) \<Rightarrow> string option \<Rightarrow> store \<Rightarrow> store" where
  "apply_filter column None rows = rows"
| "apply_filter column (Some v) rows =
     (if v \<noteq> [] then filter (\<lambda>r. column r = v) rows else rows)"

text \<open>\<open>order_by(Incident.timestamp.desc())\<close>.\<close>

definition order_by_timestamp_desc :: "store \<Rightarrow> store" where
  "order_by_timestamp_desc rows = sort_key (\<lambda>r. - timestamp r) rows"

definition get_incidents ::
    "(int \<Rightarrow> string) \<Rightarrow> store \<Rightarrow> string option \<Rightarrow> string option \<Rightarrow> response" where
  "get_incidents isoformat db status_filter severity_filter =
     (let incidents = apply_filter status status_filter db;
          incidents = apply_filter severity severity_filter incidents;
          incidents = order_by_timestamp_desc incidents;
          incident_list = map (to_dict isoformat) incidents
      in (JObject [(''incidents'', JArray incident_list),
                   (''total'', JInt (int (length incident_list)))], 200))"

subsection \<open>PATCH /incidents/<incident\_id>\<close>

definition not_found :: response where
  "not_found = (JObject [(''error'', JString ''Incident not found'')], 404)"

definition invalid_status :: response where
  "invalid_status =
     (JObject [(''error'', JString ''Invalid status''),
               (''message'',
                JString ''Status must be ['Open', 'In Progress', 'Resolved']'')], 400)"

text \<open>The committed assignment \<open>incident.status = v\<close> on the row with that key.\<close>

definition set_status :: "int \<Rightarrow> string \<Rightarrow> store \<Rightarrow> store" where
  "set_status incident_id v db =
     map (\<lambda>r. if id' r = incident_id then r\<lparr>status := v\<rparr> else r) db"

definition update_incident ::
    "(int \<Rightarrow> string) \<Rightarrow> store \<Rightarrow> int \<Rightarrow> json \<Rightarrow> store \<times> outcome" where
  "update_incident isoformat db incident_id data =
     (case session_get db incident_id of
        None \<Rightarrow> (db, Returned not_found)
      | Some incident \<Rightarrow>
          if \<not> truthy data then (db, Returned no_data)
          else (case present_not_among ''status'' valid_statuses data of
                  Inl e \<Rightarrow> (db, Raised e)
                | Inr True \<Rightarrow> (db, Returned invalid_status)
                | Inr False \<Rightarrow>
                    (case py_contains ''status'' data of
                       Inl e \<Rightarrow> (db, Raised e)
                     | Inr False \<Rightarrow> (db, Returned (to_dict isoformat incident, 200))
                     | Inr True \<Rightarrow>
                         (case column_text (py_subscript data ''status'') of
                            Inl e \<Rightarrow> (db, Raised e)
                          | Inr v \<Rightarrow>
                              (set_status incident_id v db,
                               Returned (to_dict isoformat (incident\<lparr>status := v\<rparr>), 200))))))"

subsection \<open>DELETE /incidents/<incident\_id>\<close>

definition delete_incident ::
    "(int \<Rightarrow> string) \<Rightarrow> store \<Rightarrow> int \<Rightarrow> store \<times> outcome" where
  "delete_incident isoformat db incident_id =
     (case session_get db incident_id of
        None \<Rightarrow> (db, Returned not_found)
      | Some incident \<Rightarrow>
          (let incident_dict = to_dict isoformat incident
           in (filter (\<lambda>r. id' r \<noteq> incident_id) db,
               Returned (JObject [(''message'', JString ''Incident deleted successfully''),
                                  (''deleted_incident'', incident_dict)], 200))))"

subsection \<open>Reachable tables\<close>

text \<open>The tables that the three writing handlers produce from the empty table.\<close>

inductive reachable :: "store \<Rightarrow> bool" where
  init: "reachable []"
| create: "reachable db \<Longrightarrow> reachable (fst (create_incident isoformat now db data))"
| update: "reachable db \<Longrightarrow> reachable (fst (update_incident isoformat db incident_id data))"
| delete: "reachable db \<Longrightarrow> reachable (fst (delete_incident isoformat db incident_id))"

text \<open>The invariant of the data model.\<close>

definition nonblank :: "string \<Rightarrow> bool" where
  "nonblank s = (strip s \<noteq> [])"

definition row_ok :: "incident \<Rightarrow> bool" where
  "row_ok r =
     (severity r \<in> set valid_severity \<and> status r \<in> set valid_statuses \<and>
      nonblank (title r) \<and> nonblank (description r) \<and> nonblank (reported_by r))"

definition store_ok :: "store \<Rightarrow> bool" where
  "store_ok db = (distinct (map id' db) \<and> list_all row_ok db)"

subsection \<open>Predicates of the specification\<close>

text \<open>
  A required key of an object is missing or blank: it is absent, its value is false in
  Python's sense, or its value is a string that is empty after trimming.
\<close>

definition missing_or_blank :: "(string \<times> json) list \<Rightarrow> string \<Rightarrow> bool" where
  "missing_or_blank kvs k =
     (case map_of kvs k of
        None \<Rightarrow> True
      | Some (JString s) \<Rightarrow> strip s = []
      | Some v \<Rightarrow> \<not> truthy v)"

text \<open>The value under a key is absent, false in Python's sense, or a string.\<close>

definition string_or_falsy :: "(string \<times> json) list \<Rightarrow> string \<Rightarrow> bool" where
  "string_or_falsy kvs k =
     (case map_of kvs k of
        None \<Rightarrow> True
      | Some (JString s) \<Rightarrow> True
      | Some v \<Rightarrow> \<not> truthy v)"

text \<open>
  A query parameter selects a stored value: an absent or empty parameter selects every
  value, any other parameter selects the equal value only.
\<close>

definition filter_matches :: "string option \<Rightarrow> string \<Rightarrow> bool" where
  "filter_matches f v = (case f of None \<Rightarrow> True | Some w \<Rightarrow> w = [] \<or> v = w)"

subsection \<open>Sample data\<close>

text \<open>A fixed clock format, a payload and the table it creates, for concrete instances.\<close>

definition sample_isoformat :: "int \<Rightarrow> string" where
  "sample_isoformat t = ''2025-01-01T00:00:00''"

definition sample_payload :: json where
  "sample_payload = JObject [(''title'', JString ''Disk full''),
     (''description'', JString '' /var is at 100% ''), (''reported_by'', JString ''Trent'')]"

definition sample_incident :: incident where
  "sample_incident =
     \<lparr>id' = 1, title = ''Disk full'', description = '' /var is at 100% '',
      reported_by = ''Trent'', severity = ''Medium'', status = ''Open'',
      timestamp = 1700000000\<rparr>"

definition sample_store :: store where
  "sample_store = [sample_incident]"

definition second_incident :: incident where
  "second_incident =
     \<lparr>id' = 2, title = ''Login fails'', description = ''500 on /login'',
      reported_by = ''Ana'', severity = ''High'', status = ''Open'',
      timestamp = 1700000060\<rparr>"

definition third_incident :: incident where
  "third_incident =
     \<lparr>id' = 3, title = ''Slow search'', description = ''p99 over 4s'',
      reported_by = ''Trent'', severity = ''Medium'', status = ''Open'',
      timestamp = 1700000120\<rparr>"

definition three_incidents :: store where
  "three_incidents = [sample_incident, second_incident, third_incident]"

definition relabel_payload :: json where
  "relabel_payload = JObject [(''status'', JString ''Resolved''), (''title'', JString ''x''),
     (''id'', JInt 7), (''severity'', JString ''Low'')]"

definition blank_payload :: json where
  "blank_payload = JObject [(''title'', JString ''  ''), (''description'', JString ''x''),
     (''reported_by'', JNull), (''severity'', JString ''important'')]"

definition numeric_title_payload :: json where
  "numeric_title_payload = JObject [(''title'', JInt 5), (''description'', JString ''d''),
     (''reported_by'', JString ''r'')]"

definition urgent_payload :: json where
  "urgent_payload = JObject [(''title'', JString ''Login fails''),
     (''description'', JString ''500 on /login''), (''reported_by'', JString ''Ana''),
     (''severity'', JString ''High'')]"

definition blank_title_payload :: json where
  "blank_title_payload = JObject [(''title'', JString []), (''description'', JInt 5),
     (''reported_by'', JString ''r'')]"

section \<open>Properties\<close>

subsection \<open>Auxiliary facts\<close>

lemmas handler_defs =
  create_incident_def validate_fields_def field_missing_def present_not_among_def
  new_incident_def fresh_id_def to_dict_def no_data_def missing_fields_def
  invalid_severity_def valid_severity_def valid_statuses_def update_incident_def
  delete_incident_def session_get_def set_status_def not_found_def invalid_status_def
  get_incidents_def order_by_timestamp_desc_def

lemmas sample_defs =
  sample_isoformat_def sample_payload_def sample_incident_def sample_store_def
  blank_payload_def numeric_title_payload_def second_incident_def third_incident_def
  three_incidents_def relabel_payload_def urgent_payload_def blank_title_payload_def

lemma to_dict_fun:
  "to_dict isoformat = (\<lambda>self. JObject
     [(''id'', JInt (id' self)),
      (''title'', JString (title self)),
      (''description'', JString (description self)),
      (''reported_by'', JString (reported_by self)),
      (''severity'', JString (severity self)),
      (''timestamp'', JString (isoformat (timestamp self))),
      (''status'', JString (status self))])"
  by (rule ext) (simp add: to_dict_def)

lemma fold_max_init: "i \<le> fold max ids (i::int)"
proof (induction ids arbitrary: i)
  case Nil
  show ?case by simp
next
  case (Cons j js)
  have "i \<le> max j i" by simp
  also have "max j i \<le> fold max js (max j i)" by (rule Cons.IH)
  finally show ?case by simp
qed

lemma fold_max_ge: "x \<in> set (i # ids) \<Longrightarrow> x \<le> fold max ids (i::int)"
proof (induction ids arbitrary: i)
  case Nil
  then show ?case by simp
next
  case (Cons j js)
  from Cons.prems have "x \<le> max j i \<or> x \<in> set js" by auto
  then show ?case
  proof
    assume "x \<le> max j i"
    also have "max j i \<le> fold max js (max j i)" by (rule fold_max_init)
    finally show ?thesis by simp
  next
    assume "x \<in> set js"
    then have "x \<in> set (max j i # js)" by simp
    then have "x \<le> fold max js (max j i)" by (rule Cons.IH)
    then show ?thesis by simp
  qed
qed

lemma fresh_id_fresh: "fresh_id db \<notin> set (map id' db)"
proof
  assume a: "fresh_id db \<in> set (map id' db)"
  then obtain i ids where m: "map id' db = i # ids" by (cases "map id' db") auto
  then have f: "fresh_id db = fold max ids i + 1" by (simp add: fresh_id_def)
  from a m have "fresh_id db \<in> set (i # ids)" by simp
  then have "fresh_id db \<le> fold max ids i" by (rule fold_max_ge)
  with f show False by simp
qed

lemma session_get_Some: "session_get db i = Some r \<Longrightarrow> r \<in> set db \<and> id' r = i"
  by (auto simp: session_get_def find_Some_iff)

lemma session_get_None: "(session_get db i = None) = (i \<notin> id' ` set db)"
  by (auto simp: session_get_def find_None_iff)

lemma field_missing_object:
  "field_missing (JObject kvs) k =
     (case map_of kvs k of
        None \<Rightarrow> Inr True
      | Some v \<Rightarrow> if \<not> truthy v then Inr True
                  else (case v of JString s \<Rightarrow> Inr (strip s = []) | _ \<Rightarrow> Inl AttributeError))"
  by (auto simp: field_missing_def split: option.splits json.splits)

lemma nonblank_nonempty: "nonblank t \<Longrightarrow> t \<noteq> []"
  by (auto simp: nonblank_def strip_def)

lemma field_missing_nonblank:
  assumes "map_of kvs k = Some (JString t)" and "nonblank t"
  shows "field_missing (JObject kvs) k = Inr False"
proof -
  have "t \<noteq> []" using assms(2) by (rule nonblank_nonempty)
  moreover have "strip t \<noteq> []" using assms(2) by (simp add: nonblank_def)
  ultimately show ?thesis using assms(1) by (simp add: field_missing_object)
qed

lemma collect_missing_valid:
  assumes "map_of kvs ''title'' = Some (JString t)" "nonblank t"
    and "map_of kvs ''description'' = Some (JString d)" "nonblank d"
    and "map_of kvs ''reported_by'' = Some (JString r)" "nonblank r"
  shows "collect_missing (JObject kvs) [''title'', ''description'', ''reported_by''] = Inr []"
proof -
  have "field_missing (JObject kvs) ''title'' = Inr False"
    using assms(1,2) by (rule field_missing_nonblank)
  moreover have "field_missing (JObject kvs) ''description'' = Inr False"
    using assms(3,4) by (rule field_missing_nonblank)
  moreover have "field_missing (JObject kvs) ''reported_by'' = Inr False"
    using assms(5,6) by (rule field_missing_nonblank)
  ultimately show ?thesis by simp
qed

lemma map_of_key: "map_of kvs k = Some v \<Longrightarrow> k \<in> fst ` set kvs"
  by (metis map_of_eq_None_iff option.distinct(1))

lemma present_not_among_object:
  "present_not_among k allowed (JObject kvs) =
     Inr (case map_of kvs k of None \<Rightarrow> False | Some v \<Rightarrow> v \<notin> JString ` set allowed)"
  by (auto simp: present_not_among_def map_of_eq_None_iff image_iff split: option.splits bool.splits dest: map_of_key)

lemma strip_Nil: "strip [] = []"
  by (simp add: strip_def)

lemma create_sample:
  "create_incident sample_isoformat 1700000000 [] sample_payload =
     (sample_store, Returned (to_dict sample_isoformat sample_incident, 201))"
  by (simp add: handler_defs sample_defs strip_def isspace_def)

lemma validate_None_object: "validate_fields data = Inr None \<Longrightarrow> \<exists>kvs. data = JObject kvs"
  by (cases data) (simp_all add: validate_fields_def field_missing_def split: if_splits)

lemma field_present:
  assumes "field_missing (JObject kvs) k = Inr False"
  shows "\<exists>t. map_of kvs k = Some (JString t) \<and> nonblank t"
proof (cases "map_of kvs k")
  case None
  with assms show ?thesis by (simp add: field_missing_object)
next
  case (Some v)
  with assms show ?thesis
    by (cases v) (simp_all add: field_missing_object nonblank_def split: if_splits)
qed

lemma collect_missing_none:
  assumes "collect_missing data [a, b, c] = Inr []"
  shows "field_missing data a = Inr False \<and> field_missing data b = Inr False
         \<and> field_missing data c = Inr False"
  using assms by (simp split: sum.splits if_splits)

lemma validate_None_fields:
  assumes "validate_fields (JObject kvs) = Inr None"
  shows "(\<exists>t. map_of kvs ''title'' = Some (JString t) \<and> nonblank t) \<and>
         (\<exists>d. map_of kvs ''description'' = Some (JString d) \<and> nonblank d) \<and>
         (\<exists>r. map_of kvs ''reported_by'' = Some (JString r) \<and> nonblank r) \<and>
         (map_of kvs ''severity'' = None \<or>
          (\<exists>sv. map_of kvs ''severity'' = Some (JString sv) \<and> sv \<in> set valid_severity))"
proof -
  from assms have cm:
    "collect_missing (JObject kvs) [''title'', ''description'', ''reported_by''] = Inr []"
    by (simp add: validate_fields_def split: if_splits sum.splits bool.splits)
  from assms have sv: "present_not_among ''severity'' valid_severity (JObject kvs) = Inr False"
    by (simp add: validate_fields_def split: if_splits sum.splits bool.splits)
  have "map_of kvs ''severity'' = None \<or>
          (\<exists>sv. map_of kvs ''severity'' = Some (JString sv) \<and> sv \<in> set valid_severity)"
    using sv by (cases "map_of kvs ''severity''") (auto simp: present_not_among_object)
  then show ?thesis
    using collect_missing_none[OF cm] field_present by blast
qed

lemma new_incident_valid:
  assumes "validate_fields data = Inr None"
  shows "\<exists>inc. new_incident now i data = Inr inc \<and> id' inc = i \<and> row_ok inc"
proof -
  from assms obtain kvs where d: "data = JObject kvs" using validate_None_object by blast
  from assms d have v: "validate_fields (JObject kvs) = Inr None" by simp
  from validate_None_fields[OF v] obtain t de r where
    f: "map_of kvs ''title'' = Some (JString t)" "nonblank t"
       "map_of kvs ''description'' = Some (JString de)" "nonblank de"
       "map_of kvs ''reported_by'' = Some (JString r)" "nonblank r"
    and s: "map_of kvs ''severity'' = None \<or>
          (\<exists>sv. map_of kvs ''severity'' = Some (JString sv) \<and> sv \<in> set valid_severity)"
    by blast
  from s show ?thesis
  proof
    assume "map_of kvs ''severity'' = None"
    with f d show ?thesis
      by (simp add: new_incident_def row_ok_def valid_severity_def valid_statuses_def)
  next
    assume "\<exists>sv. map_of kvs ''severity'' = Some (JString sv) \<and> sv \<in> set valid_severity"
    then obtain sv where "map_of kvs ''severity'' = Some (JString sv)" "sv \<in> set valid_severity"
      by blast
    with f d show ?thesis
      by (simp add: new_incident_def row_ok_def valid_statuses_def)
  qed
qed

lemma strip_method_raises: "strip_method v = Inl x \<Longrightarrow> x = AttributeError"
  by (cases v) simp_all

lemma dict_get_raises: "dict_get data k dflt = Inl x \<Longrightarrow> x = AttributeError"
  by (cases data) simp_all

lemma field_missing_raises: "field_missing data k = Inl x \<Longrightarrow> x = AttributeError"
  by (auto simp: field_missing_def split: sum.splits if_splits
      dest: strip_method_raises dict_get_raises)

lemma collect_missing_raises: "collect_missing data ks = Inl x \<Longrightarrow> x = AttributeError"
  by (induction ks) (auto split: sum.splits dest: field_missing_raises)

lemma validate_fields_raises:
  assumes "validate_fields data = Inl x"
  shows "x = AttributeError"
proof (cases "collect_missing data [''title'', ''description'', ''reported_by'']")
  case (Inl y)
  with assms have "y = x"
    by (simp add: validate_fields_def del: collect_missing.simps split: if_splits)
  with Inl show ?thesis using collect_missing_raises by blast
next
  case (Inr ms)
  with assms have p: "present_not_among ''severity'' valid_severity data = Inl x"
    by (simp add: validate_fields_def del: collect_missing.simps
        split: if_splits sum.splits bool.splits)
  have "\<exists>kvs. data = JObject kvs"
    using Inr by (cases data) (simp_all add: field_missing_def)
  with p show ?thesis by (auto simp: present_not_among_object)
qed

lemma create_raises:
  assumes "create_incident isoformat now db data = (db', Raised e)"
  shows "e = AttributeError \<and> db' = db"
proof (cases "validate_fields data")
  case (Inl x)
  then have "x = AttributeError" by (rule validate_fields_raises)
  with Inl assms show ?thesis by (simp add: create_incident_def)
next
  case (Inr res)
  show ?thesis
  proof (cases res)
    case None
    with Inr have v: "validate_fields data = Inr None" by simp
    from new_incident_valid[OF v, of now "fresh_id db"] obtain inc where
      "new_incident now (fresh_id db) data = Inr inc" by blast
    with v assms show ?thesis by (simp add: create_incident_def)
  next
    case (Some err)
    with Inr assms show ?thesis by (simp add: create_incident_def)
  qed
qed

lemma update_raises:
  assumes "update_incident isoformat db incident_id data = (db', Raised e)"
  shows "e = TypeError \<and> db' = db"
proof -
  have p: "\<And>x. present_not_among ''status'' valid_statuses data = Inl x \<Longrightarrow> x = TypeError"
  proof (cases data)
    case (JObject kvs)
    fix x assume "present_not_among ''status'' valid_statuses data = Inl x"
    with JObject show "x = TypeError" by (simp add: present_not_among_object)
  qed (auto simp: present_not_among_def split: bool.splits if_splits)
  have c: "\<And>x. py_contains ''status'' data = Inl x \<Longrightarrow> x = TypeError"
    by (cases data) simp_all
  have s: "\<And>x. present_not_among ''status'' valid_statuses data = Inr False \<Longrightarrow>
      py_contains ''status'' data = Inr True \<Longrightarrow>
      column_text (py_subscript data ''status'') = Inl x \<Longrightarrow> False"
  proof -
    fix x
    assume a: "present_not_among ''status'' valid_statuses data = Inr False"
      "py_contains ''status'' data = Inr True"
      "column_text (py_subscript data ''status'') = Inl x"
    show False
    proof (cases data)
      case (JObject kvs)
      with a(2) obtain w where w: "map_of kvs ''status'' = Some w"
        by (cases "map_of kvs ''status''") (auto simp: map_of_eq_None_iff)
      with a(1) JObject obtain v where "w = JString v"
        by (auto simp: present_not_among_object)
      with w a(3) JObject show False by simp
    qed (use a in \<open>simp_all add: present_not_among_def\<close>)
  qed
  from assms p c s show ?thesis
    by (auto simp: update_incident_def split: option.splits sum.splits bool.splits if_splits)
qed

subsection \<open>Creation\<close>

text \<open>
  C1. A payload whose title, description and reported\_by are strings that are not blank,
  and whose severity is absent or one of Low, Medium, High, is created: the table gains
  one row, the response is code 201 with the seven fields of that row, its status is
  Open, its severity is the given one or Medium when the key is absent, and its id is
  the id of no row that was in the table.
\<close>

theorem create_valid_payload:
  assumes "map_of kvs ''title'' = Some (JString t)" and "nonblank t"
    and "map_of kvs ''description'' = Some (JString d)" and "nonblank d"
    and "map_of kvs ''reported_by'' = Some (JString r)" and "nonblank r"
    and "map_of kvs ''severity'' = map_option JString sev"
    and "sev \<in> {None, Some ''Low'', Some ''Medium'', Some ''High''}"
  shows "create_incident isoformat now db (JObject kvs) =
           (db @ [\<lparr>id' = fresh_id db, title = t, description = d, reported_by = r,
                    severity = (case sev of None \<Rightarrow> ''Medium'' | Some sv \<Rightarrow> sv),
                    status = ''Open'', timestamp = now\<rparr>],
            Returned (JObject
               [(''id'', JInt (fresh_id db)),
                (''title'', JString t),
                (''description'', JString d),
                (''reported_by'', JString r),
                (''severity'',
                 JString (case sev of None \<Rightarrow> ''Medium'' | Some sv \<Rightarrow> sv)),
                (''timestamp'', JString (isoformat now)),
                (''status'', JString ''Open'')], 201))
         \<and> fresh_id db \<notin> set (map id' db)"
proof -
  have ne: "kvs \<noteq> []" using assms(1) by auto
  have cm: "collect_missing (JObject kvs) [''title'', ''description'', ''reported_by''] = Inr []"
    using assms(1-6) by (rule collect_missing_valid)
  have sv: "present_not_among ''severity'' valid_severity (JObject kvs) = Inr False"
    using assms(7,8) by (auto simp: present_not_among_object valid_severity_def)
  have v: "validate_fields (JObject kvs) = Inr None"
    using ne cm sv by (simp add: validate_fields_def)
  have n: "new_incident now (fresh_id db) (JObject kvs) =
      Inr \<lparr>id' = fresh_id db, title = t, description = d, reported_by = r,
                    severity = (case sev of None \<Rightarrow> ''Medium'' | Some sv \<Rightarrow> sv),
                    status = ''Open'', timestamp = now\<rparr>"
    using assms(1,3,5,7) by (cases sev) (simp_all add: new_incident_def)
  show ?thesis using v n fresh_id_fresh[of db] by (simp add: create_incident_def to_dict_def)
qed

theorem create_valid_payload_witness:
  "create_incident sample_isoformat 1700000000 [] sample_payload =
     ([\<lparr>id' = 1, title = ''Disk full'', description = '' /var is at 100% '',
        reported_by = ''Trent'', severity = ''Medium'', status = ''Open'',
        timestamp = 1700000000\<rparr>],
      Returned (JObject [(''id'', JInt 1), (''title'', JString ''Disk full''),
         (''description'', JString '' /var is at 100% ''),
         (''reported_by'', JString ''Trent''), (''severity'', JString ''Medium''),
         (''timestamp'', JString ''2025-01-01T00:00:00''),
         (''status'', JString ''Open'')], 201))
   \<and> create_incident sample_isoformat 1700000060 sample_store urgent_payload =
     ([sample_incident,
       \<lparr>id' = 2, title = ''Login fails'', description = ''500 on /login'',
        reported_by = ''Ana'', severity = ''High'', status = ''Open'',
        timestamp = 1700000060\<rparr>],
      Returned (JObject [(''id'', JInt 2), (''title'', JString ''Login fails''),
         (''description'', JString ''500 on /login''),
         (''reported_by'', JString ''Ana''), (''severity'', JString ''High''),
         (''timestamp'', JString ''2025-01-01T00:00:00''),
         (''status'', JString ''Open'')], 201))
   \<and> 2 \<notin> set (map id' sample_store)"
proof -
  have b: "nonblank ''Disk full''" "nonblank '' /var is at 100% ''" "nonblank ''Trent''"
    "nonblank ''Login fails''" "nonblank ''500 on /login''" "nonblank ''Ana''"
    by (simp_all add: nonblank_def strip_def isspace_def)
  have f: "fresh_id [] = 1" "fresh_id sample_store = 2"
    by (simp_all add: fresh_id_def sample_store_def sample_incident_def)
  have "create_incident sample_isoformat 1700000000 [] sample_payload =
     ([\<lparr>id' = 1, title = ''Disk full'', description = '' /var is at 100% '',
        reported_by = ''Trent'', severity = ''Medium'', status = ''Open'',
        timestamp = 1700000000\<rparr>],
      Returned (JObject [(''id'', JInt 1), (''title'', JString ''Disk full''),
         (''description'', JString '' /var is at 100% ''),
         (''reported_by'', JString ''Trent''), (''severity'', JString ''Medium''),
         (''timestamp'', JString ''2025-01-01T00:00:00''),
         (''status'', JString ''Open'')], 201))"
    using create_valid_payload [of "[(''title'', JString ''Disk full''),
       (''description'', JString '' /var is at 100% ''), (''reported_by'', JString ''Trent'')]"
       "''Disk full''" "'' /var is at 100% ''" "''Trent''" None sample_isoformat 1700000000 "[]"]
      b f
    by (simp add: sample_payload_def sample_isoformat_def)
  moreover have "create_incident sample_isoformat 1700000060 sample_store urgent_payload =
     (sample_store @
      [\<lparr>id' = 2, title = ''Login fails'', description = ''500 on /login'',
        reported_by = ''Ana'', severity = ''High'', status = ''Open'',
        timestamp = 1700000060\<rparr>],
      Returned (JObject [(''id'', JInt 2), (''title'', JString ''Login fails''),
         (''description'', JString ''500 on /login''),
         (''reported_by'', JString ''Ana''), (''severity'', JString ''High''),
         (''timestamp'', JString ''2025-01-01T00:00:00''),
         (''status'', JString ''Open'')], 201))
     \<and> 2 \<notin> set (map id' sample_store)"
    using create_valid_payload [of "[(''title'', JString ''Login fails''),
       (''description'', JString ''500 on /login''), (''reported_by'', JString ''Ana''),
       (''severity'', JString ''High'')]"
       "''Login fails''" "''500 on /login''" "''Ana''" "Some ''High''"
       sample_isoformat 1700000060 sample_store]
      b f
    by (simp add: urgent_payload_def sample_isoformat_def)
  ultimately show ?thesis by (simp add: sample_store_def)
qed

text \<open>
  When validation returns an error, create returns it, with code 400 and the key error,
  and writes no row.
\<close>

lemma create_returns_validation_error:
  assumes "validate_fields data = Inr (Some err)"
  shows "create_incident isoformat now db data = (db, Returned err) \<and> snd err = 400 \<and>
         (\<exists>msg rest. fst err = JObject ((''error'', JString msg) # rest))"
proof -
  have c: "create_incident isoformat now db data = (db, Returned err)"
    using assms by (simp add: create_incident_def)
  have "err = no_data \<or> (\<exists>m. err = missing_fields m) \<or> err = invalid_severity"
    using assms by (auto simp: validate_fields_def split: if_splits sum.splits bool.splits)
  then have "snd err = 400 \<and> (\<exists>msg rest. fst err = JObject ((''error'', JString msg) # rest))"
    by (auto simp: no_data_def missing_fields_def invalid_severity_def)
  with c show ?thesis by simp
qed

text \<open>
  C4. The claim is that create answers 400 and writes nothing whenever validation fails,
  a blank required field being one of the reasons. On a payload whose title is the empty
  string and whose description is the number 5, the title is blank, the call of strip on
  the description raises AttributeError, and no 400 is built; the table is unchanged.
\<close>

theorem create_blank_title_raises:
  "missing_or_blank [(''title'', JString []), (''description'', JInt 5),
                     (''reported_by'', JString ''r'')] ''title''
   \<and> create_incident sample_isoformat 1700000000 sample_store blank_title_payload
       = (sample_store, Raised AttributeError)"
  by (simp add: handler_defs sample_defs blank_title_payload_def missing_or_blank_def strip_Nil)

text \<open>
  C10. The claim is that create ends, for every JSON payload, in a 201 or in a 400
  with an error key, also when a required field holds a value that is not a string. On
  a payload whose title is the number 5 the call of strip raises AttributeError and no
  response is built.
\<close>

theorem create_numeric_title_raises:
  "create_incident sample_isoformat 1700000000 sample_store numeric_title_payload
     = (sample_store, Raised AttributeError)"
  by (simp add: handler_defs sample_defs)

subsection \<open>Validation order\<close>

lemma field_missing_textual:
  assumes "string_or_falsy kvs k"
  shows "field_missing (JObject kvs) k = Inr (missing_or_blank kvs k)"
proof (cases "map_of kvs k")
  case None
  then show ?thesis by (simp add: field_missing_object missing_or_blank_def)
next
  case (Some v)
  with assms show ?thesis
    by (cases v)
      (auto simp: field_missing_object missing_or_blank_def string_or_falsy_def strip_Nil)
qed

lemma collect_missing_textual:
  assumes "\<forall>k \<in> set ks. string_or_falsy kvs k"
  shows "collect_missing (JObject kvs) ks = Inr (filter (missing_or_blank kvs) ks)"
  using assms by (induction ks) (simp_all add: field_missing_textual)

text \<open>
  C3, as the code has it. A payload that is absent or false in Python's sense (null, the
  empty object, ...) gets the no-data error. For a non-empty object whose values under
  title, description and reported\_by are each absent, false in Python's sense or a
  string, every required key that is missing or blank after trimming is collected, and
  the keys are reported together as the list missing, in the order title, description,
  reported\_by; the severity is checked only when that list is empty.
\<close>

theorem validate_fields_order:
  "(\<not> truthy data \<longrightarrow>
      validate_fields data = Inr (Some (JObject [(''error'', JString ''No JSON data provided'')], 400)))
   \<and>
   (kvs \<noteq> [] \<and> (\<forall>k \<in> set [''title'', ''description'', ''reported_by'']. string_or_falsy kvs k) \<longrightarrow>
      validate_fields (JObject kvs) =
        (if filter (missing_or_blank kvs) [''title'', ''description'', ''reported_by''] \<noteq> []
         then Inr (Some (JObject
                [(''error'', JString ''Missing required field(s)''),
                 (''missing'', JArray (map JString
                     (filter (missing_or_blank kvs) [''title'', ''description'', ''reported_by''])))],
                400))
         else if (case map_of kvs ''severity'' of
                    None \<Rightarrow> False | Some v \<Rightarrow> v \<notin> JString ` set valid_severity)
         then Inr (Some invalid_severity)
         else Inr None))"
proof (intro conjI impI)
  assume "\<not> truthy data"
  then show "validate_fields data = Inr (Some (JObject [(''error'', JString ''No JSON data provided'')], 400))"
    by (simp add: validate_fields_def no_data_def)
next
  assume a: "kvs \<noteq> [] \<and> (\<forall>k \<in> set [''title'', ''description'', ''reported_by'']. string_or_falsy kvs k)"
  then have cm: "collect_missing (JObject kvs) [''title'', ''description'', ''reported_by'']
      = Inr (filter (missing_or_blank kvs) [''title'', ''description'', ''reported_by''])"
    using collect_missing_textual by blast
  have t: "truthy (JObject kvs)" using a by simp
  show "validate_fields (JObject kvs) =
        (if filter (missing_or_blank kvs) [''title'', ''description'', ''reported_by''] \<noteq> []
         then Inr (Some (JObject
                [(''error'', JString ''Missing required field(s)''),
                 (''missing'', JArray (map JString
                     (filter (missing_or_blank kvs) [''title'', ''description'', ''reported_by''])))],
                400))
         else if (case map_of kvs ''severity'' of
                    None \<Rightarrow> False | Some v \<Rightarrow> v \<notin> JString ` set valid_severity)
         then Inr (Some invalid_severity)
         else Inr None)"
    unfolding validate_fields_def cm present_not_among_object missing_fields_def using t
    by (simp split: option.splits)
qed

theorem validate_fields_order_witness:
  "validate_fields JNull = Inr (Some (JObject [(''error'', JString ''No JSON data provided'')], 400))
   \<and> validate_fields blank_payload =
       Inr (Some (JObject [(''error'', JString ''Missing required field(s)''),
                           (''missing'', JArray [JString ''title'', JString ''reported_by''])], 400))"
  using validate_fields_order [of JNull "[(''title'', JString ''  ''), (''description'', JString ''x''),
     (''reported_by'', JNull), (''severity'', JString ''important'')]"]
  by (simp add: blank_payload_def string_or_falsy_def missing_or_blank_def strip_def isspace_def)

text \<open>
  The claim as written treats every payload that is present as one whose fields are
  listed. The empty object is present, and it gets the no-data error, not the list of
  the three keys.
\<close>

theorem validate_empty_object_counterexample:
  "validate_fields (JObject []) = Inr (Some no_data) \<and>
   validate_fields (JObject []) \<noteq>
     Inr (Some (missing_fields [''title'', ''description'', ''reported_by'']))"
  by (simp add: validate_fields_def no_data_def missing_fields_def)

subsection \<open>The invariant of the table\<close>

lemma create_preserves:
  assumes "store_ok db"
  shows "store_ok (fst (create_incident isoformat now db data))"
proof (cases "validate_fields data")
  case (Inl e)
  with assms show ?thesis by (simp add: create_incident_def)
next
  case (Inr res)
  show ?thesis
  proof (cases res)
    case None
    with Inr have v: "validate_fields data = Inr None" by simp
    from new_incident_valid[OF v, of now "fresh_id db"] obtain inc where
      n: "new_incident now (fresh_id db) data = Inr inc" "id' inc = fresh_id db" "row_ok inc"
      by blast
    have "fresh_id db \<notin> set (map id' db)" by (rule fresh_id_fresh)
    with assms n v show ?thesis by (simp add: create_incident_def store_ok_def)
  next
    case (Some err)
    with Inr assms show ?thesis by (simp add: create_incident_def)
  qed
qed

lemma set_status_ids: "map id' (set_status i v db) = map id' db"
  by (induction db) (simp_all add: set_status_def)

lemma set_status_rows:
  assumes "list_all row_ok db" and "v \<in> set valid_statuses"
  shows "list_all row_ok (set_status i v db)"
  using assms by (induction db) (simp_all add: set_status_def row_ok_def)

lemma status_value_valid:
  assumes "present_not_among ''status'' valid_statuses data = Inr False"
    and "py_contains ''status'' data = Inr True"
    and "column_text (py_subscript data ''status'') = Inr v"
  shows "v \<in> set valid_statuses"
proof (cases data)
  case (JObject kvs)
  with assms(3) obtain w where w: "map_of kvs ''status'' = Some w"
    by (cases "map_of kvs ''status''") simp_all
  with assms(3) JObject have "w = JString v" by (cases w) simp_all
  with w assms(1) JObject show ?thesis by (auto simp: present_not_among_object)
qed (use assms in simp_all)

lemma update_preserves:
  assumes "store_ok db"
  shows "store_ok (fst (update_incident isoformat db i data))"
proof -
  { fix v assume "present_not_among ''status'' valid_statuses data = Inr False"
      "py_contains ''status'' data = Inr True"
      "column_text (py_subscript data ''status'') = Inr v"
    then have "v \<in> set valid_statuses" by (rule status_value_valid)
    with assms have "store_ok (set_status i v db)"
      by (simp add: store_ok_def set_status_ids set_status_rows) }
  with assms show ?thesis
    by (simp add: update_incident_def split: option.splits sum.splits bool.splits)
qed

lemma delete_preserves:
  assumes "store_ok db"
  shows "store_ok (fst (delete_incident isoformat db i))"
proof -
  have "store_ok (filter (\<lambda>r. id' r \<noteq> i) db)"
    using assms by (auto simp: store_ok_def distinct_map_filter list_all_iff)
  with assms show ?thesis
    by (simp add: delete_incident_def Let_def split: option.splits)
qed

lemma reachable_store_ok: "reachable db \<Longrightarrow> store_ok db"
proof (induction rule: reachable.induct)
  case init
  show ?case by (simp add: store_ok_def)
next
  case (create db isoformat now data)
  then show ?case by (simp add: create_preserves)
next
  case (update db isoformat incident_id data)
  then show ?case by (simp add: update_preserves)
next
  case (delete db isoformat incident_id)
  then show ?case by (simp add: delete_preserves)
qed

text \<open>
  C2. In every table that create, update and delete produce from the empty table, the
  ids are pairwise different, and every row has a severity among Low, Medium, High, a
  status among Open, In Progress, Resolved, and a title, a description and a
  reported\_by that are not empty after trimming.
\<close>

theorem reachable_invariant:
  assumes "reachable db"
  shows "distinct (map id' db) \<and>
         (\<forall>r \<in> set db.
             severity r \<in> {''Low'', ''Medium'', ''High''} \<and>
             status r \<in> {''Open'', ''In Progress'', ''Resolved''} \<and>
             strip (title r) \<noteq> [] \<and> strip (description r) \<noteq> [] \<and>
             strip (reported_by r) \<noteq> [])"
proof -
  from assms have "store_ok db" by (rule reachable_store_ok)
  then show ?thesis
    by (simp add: store_ok_def list_all_iff row_ok_def nonblank_def valid_severity_def
        valid_statuses_def)
qed

theorem reachable_invariant_witness:
  "reachable sample_store \<and> distinct (map id' sample_store) \<and>
   severity sample_incident \<in> {''Low'', ''Medium'', ''High''} \<and>
   status sample_incident \<in> {''Open'', ''In Progress'', ''Resolved''} \<and>
   strip (title sample_incident) \<noteq> [] \<and> strip (description sample_incident) \<noteq> [] \<and>
   strip (reported_by sample_incident) \<noteq> []"
proof -
  have "reachable (fst (create_incident sample_isoformat 1700000000 [] sample_payload))"
    using reachable.init by (rule reachable.create)
  then have r: "reachable sample_store" by (simp add: create_sample)
  show ?thesis
    using r reachable_invariant [OF r] by (simp add: sample_store_def)
qed

subsection \<open>Listing\<close>

lemma apply_filter_eq:
  "apply_filter column f rows = filter (\<lambda>r. filter_matches f (column r)) rows"
proof (cases f)
  case None
  then show ?thesis by (simp add: filter_matches_def)
next
  case (Some w)
  then show ?thesis by (cases "w = []") (simp_all add: filter_matches_def)
qed

lemma order_by_timestamp_desc_mset: "mset (order_by_timestamp_desc rows) = mset rows"
  by (simp add: order_by_timestamp_desc_def)

lemma order_by_timestamp_desc_sorted:
  "sorted_wrt (\<lambda>a b. timestamp b \<le> timestamp a) (order_by_timestamp_desc rows)"
proof -
  have "sorted (map (\<lambda>r. - timestamp r) (order_by_timestamp_desc rows))"
    unfolding order_by_timestamp_desc_def by (rule sorted_sort_key)
  then show ?thesis by (simp add: sorted_map)
qed

text \<open>
  C5, as the code has it. For every table and every pair of query parameters, list
  answers with code 200, with the rows whose stored status and severity equal the
  parameters that are given and not empty (both must match when both are), by
  timestamp descending, and with a total that is the number of rows returned; no match
  gives the empty sequence and total 0. A parameter given as the empty string filters
  nothing, as an absent one.
\<close>

theorem list_filtered_sorted:
  "\<exists>rows.
     get_incidents isoformat db status_filter severity_filter =
       (JObject [(''incidents'', JArray (map (\<lambda>incident. JObject
            [(''id'', JInt (id' incident)),
             (''title'', JString (title incident)),
             (''description'', JString (description incident)),
             (''reported_by'', JString (reported_by incident)),
             (''severity'', JString (severity incident)),
             (''timestamp'', JString (isoformat (timestamp incident))),
             (''status'', JString (status incident))]) rows)),
                 (''total'', JInt (int (length rows)))], 200)
     \<and> mset rows = mset (filter (\<lambda>r. filter_matches status_filter (status r) \<and>
                                      filter_matches severity_filter (severity r)) db)
     \<and> sorted_wrt (\<lambda>a b. timestamp b \<le> timestamp a) rows
     \<and> (rows = [] \<longrightarrow>
          get_incidents isoformat db status_filter severity_filter =
            (JObject [(''incidents'', JArray []), (''total'', JInt 0)], 200))"
proof -
  let ?rows = "order_by_timestamp_desc
      (apply_filter severity severity_filter (apply_filter status status_filter db))"
  have g: "get_incidents isoformat db status_filter severity_filter =
       (JObject [(''incidents'', JArray (map (to_dict isoformat) ?rows)),
                 (''total'', JInt (int (length ?rows)))], 200)"
    by (simp add: get_incidents_def Let_def)
  have g': "get_incidents isoformat db status_filter severity_filter =
       (JObject [(''incidents'', JArray (map (\<lambda>incident. JObject
            [(''id'', JInt (id' incident)),
             (''title'', JString (title incident)),
             (''description'', JString (description incident)),
             (''reported_by'', JString (reported_by incident)),
             (''severity'', JString (severity incident)),
             (''timestamp'', JString (isoformat (timestamp incident))),
             (''status'', JString (status incident))]) ?rows)),
                 (''total'', JInt (int (length ?rows)))], 200)"
    using g by (simp only: to_dict_fun)
  have m: "mset ?rows = mset (filter (\<lambda>r. filter_matches status_filter (status r) \<and>
                                      filter_matches severity_filter (severity r)) db)"
    by (simp add: order_by_timestamp_desc_mset apply_filter_eq conj_commute)
  have s: "sorted_wrt (\<lambda>a b. timestamp b \<le> timestamp a) ?rows"
    by (rule order_by_timestamp_desc_sorted)
  have e: "?rows = [] \<longrightarrow>
          get_incidents isoformat db status_filter severity_filter =
            (JObject [(''incidents'', JArray []), (''total'', JInt 0)], 200)"
    using g by simp
  from g' m s e show ?thesis by blast
qed

theorem list_filtered_sorted_witness:
  "get_incidents sample_isoformat three_incidents (Some ''Open'') (Some ''Medium'') =
     (JObject [(''incidents'', JArray [to_dict sample_isoformat third_incident,
                                       to_dict sample_isoformat sample_incident]),
               (''total'', JInt 2)], 200)
   \<and> get_incidents sample_isoformat three_incidents None (Some ''Critical'') =
     (JObject [(''incidents'', JArray []), (''total'', JInt 0)], 200)"
  using list_filtered_sorted [of sample_isoformat three_incidents "Some ''Open''" "Some ''Medium''"]
  by (simp add: get_incidents_def order_by_timestamp_desc_def sample_defs)

text \<open>
  The claim as written compares the stored status with every given parameter. With the
  status parameter given as the empty string, the row of the sample table is returned,
  and its status is not the empty string.
\<close>

theorem list_empty_filter_counterexample:
  "get_incidents sample_isoformat sample_store (Some []) None =
     (JObject [(''incidents'', JArray [to_dict sample_isoformat sample_incident]),
               (''total'', JInt 1)], 200)
   \<and> status sample_incident \<noteq> []"
  by (simp add: get_incidents_def order_by_timestamp_desc_def sample_defs)

subsection \<open>Update\<close>

text \<open>
  C6. For a row that exists and an object whose value under status is none of Open,
  In Progress, Resolved, update returns code 400 with the error Invalid status and the
  message that names the three values, and the table is unchanged.
\<close>

theorem update_invalid_status:
  assumes "session_get db incident_id = Some incident"
    and "map_of kvs ''status'' = Some v"
    and "v \<notin> {JString ''Open'', JString ''In Progress'', JString ''Resolved''}"
  shows "update_incident isoformat db incident_id (JObject kvs) =
           (db, Returned (JObject
              [(''error'', JString ''Invalid status''),
               (''message'', JString ''Status must be ['Open', 'In Progress', 'Resolved']'')],
              400))"
proof -
  have ne: "kvs \<noteq> []" using assms(2) by auto
  have "present_not_among ''status'' valid_statuses (JObject kvs) = Inr True"
    using assms(2,3) by (simp add: present_not_among_object valid_statuses_def)
  with assms(1) ne show ?thesis
    by (simp add: update_incident_def invalid_status_def)
qed

theorem update_invalid_status_witness:
  "update_incident sample_isoformat sample_store 1
       (JObject [(''status'', JString ''Working on it'')]) =
     (sample_store, Returned (JObject
        [(''error'', JString ''Invalid status''),
         (''message'', JString ''Status must be ['Open', 'In Progress', 'Resolved']'')],
        400))"
proof -
  have g: "session_get sample_store 1 = Some sample_incident"
    by (simp add: session_get_def sample_defs)
  show ?thesis
    using update_invalid_status [OF g, of "[(''status'', JString ''Working on it'')]"
        "JString ''Working on it''" sample_isoformat]
    by simp
qed

text \<open>
  C7, as the code has it. For a row that exists, a payload that is absent or false in
  Python's sense (null, the empty object, ...) gets the no-data error with code 400,
  which is not the not-found answer; a non-empty object without the key status changes
  nothing and returns the current row with code 200.
\<close>

theorem update_without_status:
  assumes "session_get db incident_id = Some incident"
  shows "(\<not> truthy data \<longrightarrow>
            update_incident isoformat db incident_id data =
              (db, Returned (JObject [(''error'', JString ''No JSON data provided'')], 400)))
         \<and>
         (kvs \<noteq> [] \<and> ''status'' \<notin> fst ` set kvs \<longrightarrow>
            update_incident isoformat db incident_id (JObject kvs) =
              (db, Returned (JObject
                 [(''id'', JInt (id' incident)),
                  (''title'', JString (title incident)),
                  (''description'', JString (description incident)),
                  (''reported_by'', JString (reported_by incident)),
                  (''severity'', JString (severity incident)),
                  (''timestamp'', JString (isoformat (timestamp incident))),
                  (''status'', JString (status incident))], 200)))"
  using assms
  by (simp add: update_incident_def no_data_def present_not_among_def to_dict_def)

theorem update_without_status_witness:
  "update_incident sample_isoformat sample_store 1 JNull =
     (sample_store, Returned (JObject [(''error'', JString ''No JSON data provided'')], 400))
   \<and> update_incident sample_isoformat sample_store 1 (JObject [(''title'', JString ''x'')]) =
     (sample_store, Returned (to_dict sample_isoformat sample_incident, 200))"
proof -
  have g: "session_get sample_store 1 = Some sample_incident"
    by (simp add: session_get_def sample_defs)
  show ?thesis
    using update_without_status [OF g, of JNull sample_isoformat "[(''title'', JString ''x'')]"]
    by (simp add: to_dict_def)
qed

text \<open>
  The claim as written gives the no-data error to the absent payload only. The empty
  object is a payload without the key status, and it gets the no-data error.
\<close>

theorem update_empty_object_counterexample:
  "session_get sample_store 1 = Some sample_incident \<and>
   update_incident sample_isoformat sample_store 1 (JObject []) =
     (sample_store, Returned (JObject [(''error'', JString ''No JSON data provided'')], 400))"
  by (simp add: update_incident_def session_get_def no_data_def sample_defs)

lemma set_status_frame:
  "map (\<lambda>r. r\<lparr>status := []\<rparr>) (set_status i v db) = map (\<lambda>r. r\<lparr>status := []\<rparr>) db"
  by (induction db) (simp_all add: set_status_def)

text \<open>
  C8. Whatever the id and the payload, the table after update has the same rows in the
  same order with every column but status as before: keys of the payload that name
  other columns change nothing.
\<close>

theorem update_frame:
  "map (\<lambda>r. r\<lparr>status := []\<rparr>) (fst (update_incident isoformat db incident_id data))
     = map (\<lambda>r. r\<lparr>status := []\<rparr>) db"
  by (simp add: update_incident_def set_status_frame
      split: option.splits sum.splits bool.splits)

theorem update_frame_witness:
  "fst (update_incident sample_isoformat sample_store 1 relabel_payload)
     = [sample_incident\<lparr>status := ''Resolved''\<rparr>]
   \<and> map (\<lambda>r. r\<lparr>status := []\<rparr>)
         (fst (update_incident sample_isoformat sample_store 1 relabel_payload))
     = map (\<lambda>r. r\<lparr>status := []\<rparr>) sample_store"
  using update_frame [of sample_isoformat sample_store 1 relabel_payload]
  by (simp add: update_incident_def session_get_def present_not_among_def set_status_def
      valid_statuses_def sample_defs)

subsection \<open>Deletion\<close>

lemma filter_id_remove1:
  assumes "distinct (map id' db)" and "incident \<in> set db"
  shows "filter (\<lambda>r. id' r \<noteq> id' incident) db = remove1 incident db"
  using assms
proof (induction db)
  case Nil
  then show ?case by simp
next
  case (Cons r rs)
  show ?case
  proof (cases "r = incident")
    case True
    with Cons.prems have "\<forall>x \<in> set rs. id' x \<noteq> id' incident" by (auto simp: image_iff)
    then have "filter (\<lambda>x. id' x \<noteq> id' incident) rs = rs" by (simp add: filter_id_conv)
    with True show ?thesis by simp
  next
    case False
    with Cons.prems have "incident \<in> set rs" and "id' r \<noteq> id' incident" by auto
    with Cons.IH Cons.prems False show ?thesis by simp
  qed
qed

text \<open>
  C9. In a table with pairwise different ids: when no row has the id, delete returns
  code 404 with the error Incident not found and the table is unchanged; when a row has
  it, delete returns code 200 with the message and, under deleted\_incident, that row
  as it was serialized before removal, the table is the old one without that row, one
  row shorter, and no row has the id any more.
\<close>

theorem delete_removes_one:
  assumes "distinct (map id' db)"
  shows "(incident_id \<notin> id' ` set db \<longrightarrow>
            delete_incident isoformat db incident_id =
              (db, Returned (JObject [(''error'', JString ''Incident not found'')], 404)))
         \<and>
         (\<forall>incident. incident \<in> set db \<and> id' incident = incident_id \<longrightarrow>
            delete_incident isoformat db incident_id =
              (remove1 incident db,
               Returned (JObject [(''message'', JString ''Incident deleted successfully''),
                                  (''deleted_incident'', JObject
                     [(''id'', JInt (id' incident)),
                      (''title'', JString (title incident)),
                      (''description'', JString (description incident)),
                      (''reported_by'', JString (reported_by incident)),
                      (''severity'', JString (severity incident)),
                      (''timestamp'', JString (isoformat (timestamp incident))),
                      (''status'', JString (status incident))])], 200))
            \<and> length (remove1 incident db) + 1 = length db
            \<and> incident_id \<notin> id' ` set (remove1 incident db))"
proof (intro conjI allI impI)
  assume "incident_id \<notin> id' ` set db"
  then have "session_get db incident_id = None" by (simp add: session_get_None)
  then show "delete_incident isoformat db incident_id =
              (db, Returned (JObject [(''error'', JString ''Incident not found'')], 404))"
    by (simp add: delete_incident_def not_found_def)
next
  fix incident
  assume a: "incident \<in> set db \<and> id' incident = incident_id"
  have inj: "inj_on id' (set db)" using assms by (simp add: distinct_map)
  have u: "\<And>r. r \<in> set db \<Longrightarrow> id' r = incident_id \<Longrightarrow> r = incident"
    using inj a by (auto dest: inj_onD)
  obtain r where r: "session_get db incident_id = Some r"
    using a by (cases "session_get db incident_id") (auto simp: session_get_None)
  with u have g: "session_get db incident_id = Some incident"
    using session_get_Some by blast
  have f: "filter (\<lambda>r. id' r \<noteq> incident_id) db = remove1 incident db"
    using filter_id_remove1[OF assms, of incident] a by simp
  show "delete_incident isoformat db incident_id =
              (remove1 incident db,
               Returned (JObject [(''message'', JString ''Incident deleted successfully''),
                                  (''deleted_incident'', JObject
                     [(''id'', JInt (id' incident)),
                      (''title'', JString (title incident)),
                      (''description'', JString (description incident)),
                      (''reported_by'', JString (reported_by incident)),
                      (''severity'', JString (severity incident)),
                      (''timestamp'', JString (isoformat (timestamp incident))),
                      (''status'', JString (status incident))])], 200))"
    using g f by (simp add: delete_incident_def to_dict_def)
  show "length (remove1 incident db) + 1 = length db"
  proof -
    have "0 < length db" using a by (cases db) simp_all
    with a show ?thesis by (simp add: length_remove1)
  qed
  show "incident_id \<notin> id' ` set (remove1 incident db)"
    using f[symmetric] by auto
qed

theorem delete_removes_one_witness:
  "delete_incident sample_isoformat three_incidents 9 =
     (three_incidents, Returned (JObject [(''error'', JString ''Incident not found'')], 404))
   \<and> delete_incident sample_isoformat three_incidents 2 =
     ([sample_incident, third_incident],
      Returned (JObject
        [(''message'', JString ''Incident deleted successfully''),
         (''deleted_incident'', JObject
            [(''id'', JInt 2), (''title'', JString ''Login fails''),
             (''description'', JString ''500 on /login''),
             (''reported_by'', JString ''Ana''), (''severity'', JString ''High''),
             (''timestamp'', JString ''2025-01-01T00:00:00''),
             (''status'', JString ''Open'')])], 200))"
proof -
  have d: "distinct (map id' three_incidents)"
    by (simp add: sample_defs)
  have k: "second_incident \<in> set three_incidents \<and> id' second_incident = 2"
    by (simp add: sample_defs)
  have n: "9 \<notin> id' ` set three_incidents"
    by (simp add: sample_defs)
  have "delete_incident sample_isoformat three_incidents 9 =
     (three_incidents, Returned (JObject [(''error'', JString ''Incident not found'')], 404))"
    using delete_removes_one [OF d, of 9 sample_isoformat] n by blast
  moreover have "delete_incident sample_isoformat three_incidents 2 =
      (remove1 second_incident three_incidents,
       Returned (JObject
         [(''message'', JString ''Incident deleted successfully''),
          (''deleted_incident'', JObject
             [(''id'', JInt (id' second_incident)),
              (''title'', JString (title second_incident)),
              (''description'', JString (description second_incident)),
              (''reported_by'', JString (reported_by second_incident)),
              (''severity'', JString (severity second_incident)),
              (''timestamp'', JString (sample_isoformat (timestamp second_incident))),
              (''status'', JString (status second_incident))])], 200))"
    using delete_removes_one [OF d, of 2 sample_isoformat] k by blast
  moreover have "remove1 second_incident three_incidents = [sample_incident, third_incident]"
    by (simp add: sample_defs)
  ultimately show ?thesis by (simp add: second_incident_def sample_isoformat_def)
qed

end
